theory Spec2Isabelle
  imports Complex_Main
begin

section \<open>Calico sensors: the data model and the operations\<close>

subsection \<open>IEEE doubles, as far as \<open>operator==\<close> sees them\<close>

text \<open>
  \<open>ObservationId::stamp\<close> is a C++ \<open>double\<close>. The code only compares it with
  \<open>==\<close> and hashes it, so a double is modelled by its numeric value: a finite value,
  one of the two infinities, or NaN (the two zeros \<open>+0\<close> and \<open>-0\<close> are one numeric
  value, and \<open>==\<close> does not tell them apart). IEEE comparison: NaN is equal to nothing,
  itself included; every other value is equal to itself only.
\<close>

datatype double = Finite real | PosInf | NegInf | NaN

definition double_eq :: "double \<Rightarrow> double \<Rightarrow> bool" where
  "double_eq a b = (a \<noteq> NaN \<and> b \<noteq> NaN \<and> a = b)"

subsection \<open>\<open>ObservationId\<close> (camera.h, lines 23 to 40)\<close>

record ObservationId =
  stamp :: double
  image_id :: int
  model_id :: int
  feature_id :: int

text \<open>\<open>friend bool operator==(const ObservationId& lhs, const ObservationId& rhs)\<close>\<close>

definition ObservationId_eq :: "ObservationId \<Rightarrow> ObservationId \<Rightarrow> bool" where
  "ObservationId_eq lhs rhs =
     (double_eq (stamp lhs) (stamp rhs) \<and>
      image_id lhs = image_id rhs \<and>
      model_id lhs = model_id rhs \<and>
      feature_id lhs = feature_id rhs)"

text \<open>
  \<open>H::combine(std::move(h), v1, ..., vn)\<close> of absl feeds the values to the hash state
  one after the other, each through the \<open>AbslHashValue\<close> of its type. The hashers of
  \<open>double\<close> and \<open>int\<close> belong to absl and are parameters here.
\<close>

fun combine_ints :: "('h \<Rightarrow> int \<Rightarrow> 'h) \<Rightarrow> 'h \<Rightarrow> int list \<Rightarrow> 'h" where
  "combine_ints hash_int h [] = h"
| "combine_ints hash_int h (v # vs) = combine_ints hash_int (hash_int h v) vs"

definition AbslHashValue ::
  "('h \<Rightarrow> double \<Rightarrow> 'h) \<Rightarrow> ('h \<Rightarrow> int \<Rightarrow> 'h) \<Rightarrow> 'h \<Rightarrow> ObservationId \<Rightarrow> 'h" where
  "AbslHashValue hash_double hash_int h oid =
     combine_ints hash_int (hash_double h (stamp oid))
       [image_id oid, model_id oid, feature_id oid]"

subsection \<open>\<open>CameraModel::Create\<close> (camera\_models.cpp)\<close>

text \<open>
  The enum \<open>CameraIntrinsicsModel\<close> is declared in camera\_models.h, which is not among
  the sources. Its two enumerators named by \<open>Create\<close> are constructors here; \<open>kOther n\<close>
  stands for every other value the tag can hold (another enumerator, or an integer cast
  to the enum type). The result \<open>std::unique_ptr<CameraModel>\<close> is an option: \<open>None\<close> is
  the null pointer.
\<close>

datatype CameraIntrinsicsModel = kOpenCv5 | kKannalaBrandt | kOther int

datatype CameraModel = OpenCv5Model | KannalaBrandtModel

fun Create :: "CameraIntrinsicsModel \<Rightarrow> CameraModel option" where
  "Create kOpenCv5 = Some OpenCv5Model"
| "Create kKannalaBrandt = Some KannalaBrandtModel"
| "Create _ = None"

subsection \<open>The measurement store of \<open>Camera\<close> (camera.h)\<close>

text \<open>
  \<open>struct CameraMeasurement { Eigen::Vector2d pixel; ObservationId id; }\<close> and
  \<open>struct ImageSize { int width; int height; }\<close>. The field \<open>id\<close> is written \<open>id'\<close>, and
  the private members of \<open>Camera\<close> are written without their trailing underscore.
\<close>

record CameraMeasurement =
  pixel :: "double \<times> double"
  id' :: ObservationId

record ImageSize =
  width :: int
  height :: int

text \<open>
  \<open>absl::flat_hash_map<ObservationId, CameraMeasurement> id_to_measurement_\<close>: the table
  is a list of its entries. A lookup compares the stored keys with the key type's
  \<open>operator==\<close> (the hash only selects the slots to compare, and keys that are \<open>==\<close> hash
  alike), \<open>size()\<close> is the number of entries, and an insertion of a key that no lookup
  finds adds one entry.
\<close>

type_synonym 'v flat_hash_map = "(ObservationId \<times> 'v) list"

fun flat_hash_map_find :: "'v flat_hash_map \<Rightarrow> ObservationId \<Rightarrow> 'v option" where
  "flat_hash_map_find [] k = None"
| "flat_hash_map_find ((k', v) # es) k =
     (if ObservationId_eq k' k then Some v else flat_hash_map_find es k)"

definition flat_hash_map_contains :: "'v flat_hash_map \<Rightarrow> ObservationId \<Rightarrow> bool" where
  "flat_hash_map_contains es k = (flat_hash_map_find es k \<noteq> None)"

definition flat_hash_map_insert ::
  "'v flat_hash_map \<Rightarrow> ObservationId \<Rightarrow> 'v \<Rightarrow> 'v flat_hash_map" where
  "flat_hash_map_insert es k v = (if flat_hash_map_contains es k then es else es @ [(k, v)])"

text \<open>
  The private state of \<open>class Camera\<close>. \<open>Pose3d\<close> (typedefs.h) is a type parameter;
  \<open>std::unique_ptr<CameraModel>\<close> is an option.
\<close>

record 'pose Camera =
  name :: string
  intrinsics_enabled :: bool
  extrinsics_enabled :: bool
  image_size :: ImageSize
  camera_model :: "CameraModel option"
  T_sensorrig_sensor :: 'pose
  intrinsics :: "double list"
  id_to_measurement :: "CameraMeasurement flat_hash_map"

text \<open>The error taxonomy of the specification (section 7).\<close>

datatype error =
  ConfigurationError | DuplicateEntry | NotFound | ProjectionInvalid | ResolutionFailure

text \<open>
  Modelled from the spec: \<open>Camera::AddMeasurement\<close> is declared in camera.h, its body
  (camera.cpp) is missing. The specification (section 4.1): "\<open>Add(m)\<close>: fails
  DuplicateEntry if \<open>m.id\<close> already present, else inserts"; camera.h: "Returns an error if
  the measurement's id is duplicated without adding". An \<open>absl::Status\<close> is
  \<open>error + unit\<close>; the camera is passed in and returned.
\<close>

definition AddMeasurement ::
  "'pose Camera \<Rightarrow> CameraMeasurement \<Rightarrow> (error + unit) \<times> 'pose Camera" where
  "AddMeasurement cam m =
     (if flat_hash_map_contains (id_to_measurement cam) (id' m)
      then (Inl DuplicateEntry, cam)
      else (Inr (),
            cam\<lparr>id_to_measurement :=
                  flat_hash_map_insert (id_to_measurement cam) (id' m) m\<rparr>))"

text \<open>
  Modelled from the spec: \<open>Camera::NumberOfMeasurements\<close> is declared in camera.h ("Get
  current number of measurements stored"), its body (camera.cpp) is missing. The
  specification (section 4.1): "\<open>Count()\<close>: current size".
\<close>

definition NumberOfMeasurements :: "'pose Camera \<Rightarrow> int" where
  "NumberOfMeasurements cam = int (length (id_to_measurement cam))"

text \<open>A sequence of \<open>AddMeasurement\<close> calls on one camera, whatever each call returns.\<close>

fun add_calls :: "'pose Camera \<Rightarrow> CameraMeasurement list \<Rightarrow> 'pose Camera" where
  "add_calls cam [] = cam"
| "add_calls cam (m # ms) = add_calls (snd (AddMeasurement cam m)) ms"

text \<open>
  Modelled from the spec: the overload of \<open>Camera::Project\<close> that takes the times is
  declared in camera.h (lines 77 to 80), its body (camera.cpp) is missing. The
  specification (section 4.3): it fails with a ConfigurationError when no model is set, and
  otherwise collects, for each requested time, the synthetic measurements that pass the
  physicality checks. The work done at one time (interpolation of the rig pose, the
  landmarks of the world model, the projection and its filters) belongs to collaborators
  that are not in the sources: it is the parameter \<open>synthesize\<close>.
\<close>

definition Project_at_times ::
  "('pose Camera \<Rightarrow> CameraModel \<Rightarrow> 'traj \<Rightarrow> 'world \<Rightarrow> double \<Rightarrow> CameraMeasurement list) \<Rightarrow>
   'pose Camera \<Rightarrow> double list \<Rightarrow> 'traj \<Rightarrow> 'world \<Rightarrow> error + CameraMeasurement list" where
  "Project_at_times synthesize cam interp_times sensorrig_trajectory world_model =
     (case camera_model cam of
        None \<Rightarrow> Inl ConfigurationError
      | Some model \<Rightarrow>
          Inr (concat
                 (map (synthesize cam model sensorrig_trajectory world_model) interp_times)))"

text \<open>
  Modelled from the spec: the overload of \<open>Camera::Project\<close> without times is declared in
  camera.h (lines 86 to 88) with the result type \<open>std::vector<CameraMeasurement>\<close>, its
  body (camera.cpp) is missing. The specification (section 4.3): it "enumerates every
  timestamp known to the trajectory and never fails: it returns an empty list instead of
  an error, since model-absence is the only failure mode and is checked upfront". The
  parameter \<open>timestamps\<close> is the trajectory's enumeration of its timestamps.
\<close>

definition Project_all_times ::
  "('pose Camera \<Rightarrow> CameraModel \<Rightarrow> 'traj \<Rightarrow> 'world \<Rightarrow> double \<Rightarrow> CameraMeasurement list) \<Rightarrow>
   ('traj \<Rightarrow> double list) \<Rightarrow>
   'pose Camera \<Rightarrow> 'traj \<Rightarrow> 'world \<Rightarrow> CameraMeasurement list" where
  "Project_all_times synthesize timestamps cam sensorrig_trajectory world_model =
     (if camera_model cam = None then []
      else (case Project_at_times synthesize cam (timestamps sensorrig_trajectory)
                   sensorrig_trajectory world_model of
              Inl e \<Rightarrow> []
            | Inr measurements \<Rightarrow> measurements))"

subsection \<open>Vectors, matrices and quaternions of Eigen\<close>

text \<open>
  \<open>GyroscopeCostFunctor::operator()\<close> is a template over the scalar type \<open>T\<close> (a double,
  or a derivative-carrying number of the solver). It is modelled at \<open>T = real\<close>, with exact
  arithmetic. \<open>Eigen::Vector3<T>\<close> is a triple, \<open>Eigen::Matrix3<T>\<close> the triple of its
  rows, \<open>Eigen::Vector<T, 6>\<close> a sextuple, and \<open>Eigen::Quaternion<T>\<close> the quadruple of
  its coefficients in the order Eigen stores them: \<open>x\<close>, \<open>y\<close>, \<open>z\<close>, \<open>w\<close>.
\<close>

type_synonym vec3 = "real \<times> real \<times> real"
type_synonym mat3 = "vec3 \<times> vec3 \<times> vec3"
type_synonym vec6 = "real \<times> real \<times> real \<times> real \<times> real \<times> real"
type_synonym quaternion = "real \<times> real \<times> real \<times> real"

fun vec_neg :: "vec3 \<Rightarrow> vec3" where
  "vec_neg (x, y, z) = (- x, - y, - z)"

fun vec_add :: "vec3 \<Rightarrow> vec3 \<Rightarrow> vec3" where
  "vec_add (a, b, c) (x, y, z) = (a + x, b + y, c + z)"

fun vec_sub :: "vec3 \<Rightarrow> vec3 \<Rightarrow> vec3" where
  "vec_sub (a, b, c) (x, y, z) = (a - x, b - y, c - z)"

fun vec_scale :: "real \<Rightarrow> vec3 \<Rightarrow> vec3" where
  "vec_scale s (x, y, z) = (s * x, s * y, s * z)"

fun dot :: "vec3 \<Rightarrow> vec3 \<Rightarrow> real" where
  "dot (a, b, c) (x, y, z) = a * x + b * y + c * z"

fun cross :: "vec3 \<Rightarrow> vec3 \<Rightarrow> vec3" where
  "cross (a, b, c) (x, y, z) = (b * z - c * y, c * x - a * z, a * y - b * x)"

fun squaredNorm :: "vec3 \<Rightarrow> real" where
  "squaredNorm (x, y, z) = x * x + y * y + z * z"

definition norm3 :: "vec3 \<Rightarrow> real" where
  "norm3 v = sqrt (squaredNorm v)"

fun head3 :: "vec6 \<Rightarrow> vec3" where
  "head3 (a, b, c, d, e, f) = (a, b, c)"

definition identity3 :: mat3 where
  "identity3 = ((1, 0, 0), (0, 1, 0), (0, 0, 1))"

fun mat_add :: "mat3 \<Rightarrow> mat3 \<Rightarrow> mat3" where
  "mat_add (a0, a1, a2) (b0, b1, b2) = (vec_add a0 b0, vec_add a1 b1, vec_add a2 b2)"

fun mat_scale :: "real \<Rightarrow> mat3 \<Rightarrow> mat3" where
  "mat_scale s (a0, a1, a2) = (vec_scale s a0, vec_scale s a1, vec_scale s a2)"

fun mat_vec :: "mat3 \<Rightarrow> vec3 \<Rightarrow> vec3" where
  "mat_vec (a0, a1, a2) v = (dot a0 v, dot a1 v, dot a2 v)"

fun transpose3 :: "mat3 \<Rightarrow> mat3" where
  "transpose3 ((a, b, c), (d, e, f), (g, h, i)) = ((a, d, g), (b, e, h), (c, f, i))"

fun mat_mul :: "mat3 \<Rightarrow> mat3 \<Rightarrow> mat3" where
  "mat_mul (a0, a1, a2) b =
     (case transpose3 b of (c0, c1, c2) \<Rightarrow>
        ((dot a0 c0, dot a0 c1, dot a0 c2),
         (dot a1 c0, dot a1 c1, dot a1 c2),
         (dot a2 c0, dot a2 c1, dot a2 c2)))"

text \<open>The largest distance between two corresponding entries of two matrices.\<close>

fun vec_dist_max :: "vec3 \<Rightarrow> vec3 \<Rightarrow> real" where
  "vec_dist_max (a, b, c) (x, y, z) = max \<bar>a - x\<bar> (max \<bar>b - y\<bar> \<bar>c - z\<bar>)"

fun mat_dist_max :: "mat3 \<Rightarrow> mat3 \<Rightarrow> real" where
  "mat_dist_max (a0, a1, a2) (b0, b1, b2) =
     max (vec_dist_max a0 b0) (max (vec_dist_max a1 b1) (vec_dist_max a2 b2))"

text \<open>
  \<open>Eigen::Quaternion\<close>: \<open>squaredNorm\<close>, \<open>conjugate\<close>, \<open>inverse\<close> (the conjugate divided by
  the squared norm when that is positive, the zero quaternion otherwise),
  \<open>toRotationMatrix\<close>, and the product of a quaternion with a vector
  (\<open>_transformVector\<close>): with \<open>u\<close> the vector part, \<open>uv = 2 (u \<times> v)\<close> and the result is
  \<open>v + w uv + u \<times> uv\<close>.
\<close>

fun quat_squaredNorm :: "quaternion \<Rightarrow> real" where
  "quat_squaredNorm (x, y, z, w) = x * x + y * y + z * z + w * w"

fun quat_conjugate :: "quaternion \<Rightarrow> quaternion" where
  "quat_conjugate (x, y, z, w) = (- x, - y, - z, w)"

fun quat_coeffs_div :: "quaternion \<Rightarrow> real \<Rightarrow> quaternion" where
  "quat_coeffs_div (x, y, z, w) n = (x / n, y / n, z / n, w / n)"

definition quat_inverse :: "quaternion \<Rightarrow> quaternion" where
  "quat_inverse q =
     (let n2 = quat_squaredNorm q in
      if n2 > 0 then quat_coeffs_div (quat_conjugate q) n2 else (0, 0, 0, 0))"

fun toRotationMatrix :: "quaternion \<Rightarrow> mat3" where
  "toRotationMatrix (x, y, z, w) =
     (let tx = 2 * x; ty = 2 * y; tz = 2 * z;
          twx = tx * w; twy = ty * w; twz = tz * w;
          txx = tx * x; txy = ty * x; txz = tz * x;
          tyy = ty * y; tyz = tz * y; tzz = tz * z
      in ((1 - (tyy + tzz), txy - twz, txz + twy),
          (txy + twz, 1 - (txx + tzz), tyz - twx),
          (txz - twy, tyz + twx, 1 - (txx + tyy))))"

fun quat_transformVector :: "quaternion \<Rightarrow> vec3 \<Rightarrow> vec3" where
  "quat_transformVector (x, y, z, w) v =
     (let uv = cross (x, y, z) v; uv = vec_add uv uv
      in vec_add (vec_add v (vec_scale w uv)) (cross (x, y, z) uv))"

subsection \<open>\<open>GyroscopeCostFunctor\<close> (gyroscope\_cost\_functor.h)\<close>

text \<open>\<open>enum class GyroscopeParameterIndices : int\<close> and \<open>static_cast<int>\<close> on it.\<close>

datatype GyroscopeParameterIndices =
  kIntrinsicsIndex
  | kExtrinsicsRotationIndex
  | kExtrinsicsTranslationIndex
  | kLatencyIndex
  | kSensorRigPoseSplineControlPointsIndex

fun index_of :: "GyroscopeParameterIndices \<Rightarrow> int" where
  "index_of kIntrinsicsIndex = 0"
| "index_of kExtrinsicsRotationIndex = 1"
| "index_of kExtrinsicsTranslationIndex = 2"
| "index_of kLatencyIndex = 3"
| "index_of kSensorRigPoseSplineControlPointsIndex = 7"

text \<open>\<open>template <typename T> Eigen::Matrix3<T> skew(const Eigen::Vector3<T>& v)\<close>\<close>

fun skew :: "vec3 \<Rightarrow> mat3" where
  "skew (x, y, z) = ((0, - z, y), (z, 0, - x), (- y, x, 0))"

text \<open>
  Lines 108 to 121: the two coefficients of the Jacobian, from the squared angle. The
  second component of the result lists the values that the branch taken divides by at run
  time, in the order of the divisions (\<open>1.0 / 24.0\<close> and the like are constants of the
  program text).
\<close>

definition jacobian_coefficients :: "real \<Rightarrow> (real \<times> real) \<times> real list" where
  "jacobian_coefficients theta_sq =
     (let theta = sqrt theta_sq;
          theta_fo = theta_sq * theta_sq
      in if \<bar>theta\<bar> < 1 / 10 ^ 7
         then ((1 / 2 - theta_sq * (1 / 24) + theta_fo * (1 / 720),
                1 / 6 - theta_sq * (1 / 120) + theta_fo * (1 / 5040)),
               [])
         else (let inv_theta_sq = 1 / theta_sq
               in (((1 - cos theta) * inv_theta_sq,
                    (1 - sin theta / theta) * inv_theta_sq),
                   [theta_sq, theta])))"

text \<open>
  Lines 104 to 124: the axis-angle manifold Jacobian \<open>J\<close> of the vector \<open>phi\<close>, with the
  run-time divisors of its evaluation. \<open>J += c1 * phi_x + c2 * phi_x * phi_x\<close> is
  \<open>J + (c1 * phi_x + (c2 * phi_x) * phi_x)\<close> in C++.
\<close>

definition manifold_jacobian :: "vec3 \<Rightarrow> mat3 \<times> real list" where
  "manifold_jacobian phi =
     (let theta_sq = squaredNorm phi;
          J = identity3
      in if theta_sq \<noteq> 0
         then (case jacobian_coefficients theta_sq of
                 ((c1, c2), divisors) \<Rightarrow>
                   (let phi_x = skew phi
                    in (mat_add J (mat_add (mat_scale c1 phi_x)
                                           (mat_mul (mat_scale c2 phi_x) phi_x)),
                        divisors)))
         else (J, []))"

subsection \<open>The Jacobian at a scalar type with the special values of IEEE\<close>

text \<open>
  The same lines 104 to 124 of \<open>operator()\<close>, at \<open>T = double\<close> with the special values:
  arithmetic on finite values is exact (no rounding, no overflow), and infinities and
  NaN arise and propagate as IEEE 754 has them. A nonzero number divided by zero is an
  infinity; \<open>0 / 0\<close>, \<open>\<infinity> - \<infinity>\<close>, \<open>0 * \<infinity>\<close>, \<open>\<infinity> / \<infinity>\<close>, the square root of a negative number
  and the cosine and sine of an infinity are NaN; an operation on a NaN is NaN; \<open><\<close> is
  false on a NaN, and \<open>!=\<close> is the negation of \<open>==\<close>. The two zeros are one value, taken
  as \<open>+0\<close> when it divides.
\<close>

type_synonym vec3_ieee = "double \<times> double \<times> double"
type_synonym mat3_ieee = "vec3_ieee \<times> vec3_ieee \<times> vec3_ieee"

text \<open>The infinity of a given sign.\<close>

definition signed_inf :: "bool \<Rightarrow> double" where
  "signed_inf positive = (if positive then PosInf else NegInf)"

fun d_neg :: "double \<Rightarrow> double" where
  "d_neg (Finite a) = Finite (- a)"
| "d_neg PosInf = NegInf"
| "d_neg NegInf = PosInf"
| "d_neg NaN = NaN"

fun d_add :: "double \<Rightarrow> double \<Rightarrow> double" where
  "d_add NaN b = NaN"
| "d_add a NaN = NaN"
| "d_add (Finite a) (Finite b) = Finite (a + b)"
| "d_add PosInf NegInf = NaN"
| "d_add NegInf PosInf = NaN"
| "d_add PosInf b = PosInf"
| "d_add NegInf b = NegInf"
| "d_add (Finite a) b = b"

definition d_sub :: "double \<Rightarrow> double \<Rightarrow> double" where
  "d_sub a b = d_add a (d_neg b)"

fun d_mul :: "double \<Rightarrow> double \<Rightarrow> double" where
  "d_mul NaN b = NaN"
| "d_mul a NaN = NaN"
| "d_mul (Finite a) (Finite b) = Finite (a * b)"
| "d_mul (Finite a) PosInf = (if a = 0 then NaN else signed_inf (0 < a))"
| "d_mul (Finite a) NegInf = (if a = 0 then NaN else signed_inf (a < 0))"
| "d_mul PosInf (Finite b) = (if b = 0 then NaN else signed_inf (0 < b))"
| "d_mul NegInf (Finite b) = (if b = 0 then NaN else signed_inf (b < 0))"
| "d_mul PosInf PosInf = PosInf"
| "d_mul PosInf NegInf = NegInf"
| "d_mul NegInf PosInf = NegInf"
| "d_mul NegInf NegInf = PosInf"

fun d_div :: "double \<Rightarrow> double \<Rightarrow> double" where
  "d_div NaN b = NaN"
| "d_div a NaN = NaN"
| "d_div (Finite a) (Finite b) =
     (if b = 0 then (if a = 0 then NaN else signed_inf (0 < a)) else Finite (a / b))"
| "d_div (Finite a) b = Finite 0"
| "d_div PosInf (Finite b) = signed_inf (0 \<le> b)"
| "d_div NegInf (Finite b) = signed_inf (b < 0)"
| "d_div a b = NaN"

fun d_sqrt :: "double \<Rightarrow> double" where
  "d_sqrt (Finite a) = (if a < 0 then NaN else Finite (sqrt a))"
| "d_sqrt PosInf = PosInf"
| "d_sqrt a = NaN"

fun d_cos :: "double \<Rightarrow> double" where
  "d_cos (Finite a) = Finite (cos a)"
| "d_cos a = NaN"

fun d_sin :: "double \<Rightarrow> double" where
  "d_sin (Finite a) = Finite (sin a)"
| "d_sin a = NaN"

fun d_abs :: "double \<Rightarrow> double" where
  "d_abs (Finite a) = Finite \<bar>a\<bar>"
| "d_abs NaN = NaN"
| "d_abs a = PosInf"

fun d_less :: "double \<Rightarrow> double \<Rightarrow> bool" where
  "d_less NaN b = False"
| "d_less a NaN = False"
| "d_less (Finite a) (Finite b) = (a < b)"
| "d_less a NegInf = False"
| "d_less PosInf b = False"
| "d_less a b = True"

text \<open>The operations of Eigen on vectors and matrices of such scalars.\<close>

fun d_vec_add :: "vec3_ieee \<Rightarrow> vec3_ieee \<Rightarrow> vec3_ieee" where
  "d_vec_add (a, b, c) (x, y, z) = (d_add a x, d_add b y, d_add c z)"

fun d_vec_scale :: "double \<Rightarrow> vec3_ieee \<Rightarrow> vec3_ieee" where
  "d_vec_scale s (x, y, z) = (d_mul s x, d_mul s y, d_mul s z)"

fun d_dot :: "vec3_ieee \<Rightarrow> vec3_ieee \<Rightarrow> double" where
  "d_dot (a, b, c) (x, y, z) = d_add (d_add (d_mul a x) (d_mul b y)) (d_mul c z)"

fun d_squaredNorm :: "vec3_ieee \<Rightarrow> double" where
  "d_squaredNorm (x, y, z) = d_add (d_add (d_mul x x) (d_mul y y)) (d_mul z z)"

definition d_identity3 :: mat3_ieee where
  "d_identity3 =
     ((Finite 1, Finite 0, Finite 0), (Finite 0, Finite 1, Finite 0),
      (Finite 0, Finite 0, Finite 1))"

fun d_mat_add :: "mat3_ieee \<Rightarrow> mat3_ieee \<Rightarrow> mat3_ieee" where
  "d_mat_add (a0, a1, a2) (b0, b1, b2) = (d_vec_add a0 b0, d_vec_add a1 b1, d_vec_add a2 b2)"

fun d_mat_scale :: "double \<Rightarrow> mat3_ieee \<Rightarrow> mat3_ieee" where
  "d_mat_scale s (a0, a1, a2) = (d_vec_scale s a0, d_vec_scale s a1, d_vec_scale s a2)"

fun d_mat_mul :: "mat3_ieee \<Rightarrow> mat3_ieee \<Rightarrow> mat3_ieee" where
  "d_mat_mul (a0, a1, a2) ((a, b, c), (d, e, f), (g, h, i)) =
     ((d_dot a0 (a, d, g), d_dot a0 (b, e, h), d_dot a0 (c, f, i)),
      (d_dot a1 (a, d, g), d_dot a1 (b, e, h), d_dot a1 (c, f, i)),
      (d_dot a2 (a, d, g), d_dot a2 (b, e, h), d_dot a2 (c, f, i)))"

fun d_skew :: "vec3_ieee \<Rightarrow> mat3_ieee" where
  "d_skew (x, y, z) =
     ((Finite 0, d_neg z, y), (z, Finite 0, d_neg x), (d_neg y, x, Finite 0))"

text \<open>
  Lines 104 to 124 once more, operation for operation as in \<open>jacobian_coefficients\<close> and
  \<open>manifold_jacobian\<close>.
\<close>

definition jacobian_coefficients_ieee :: "double \<Rightarrow> double \<times> double" where
  "jacobian_coefficients_ieee theta_sq =
     (let theta = d_sqrt theta_sq;
          theta_fo = d_mul theta_sq theta_sq
      in if d_less (d_abs theta) (Finite (1 / 10 ^ 7))
         then (d_add (d_sub (Finite (1 / 2)) (d_mul theta_sq (Finite (1 / 24))))
                 (d_mul theta_fo (Finite (1 / 720))),
               d_add (d_sub (Finite (1 / 6)) (d_mul theta_sq (Finite (1 / 120))))
                 (d_mul theta_fo (Finite (1 / 5040))))
         else (let inv_theta_sq = d_div (Finite 1) theta_sq
               in (d_mul (d_sub (Finite 1) (d_cos theta)) inv_theta_sq,
                   d_mul (d_sub (Finite 1) (d_div (d_sin theta) theta)) inv_theta_sq)))"

definition manifold_jacobian_ieee :: "vec3_ieee \<Rightarrow> mat3_ieee" where
  "manifold_jacobian_ieee phi =
     (let theta_sq = d_squaredNorm phi;
          J = d_identity3
      in if \<not> double_eq theta_sq (Finite 0)
         then (case jacobian_coefficients_ieee theta_sq of
                 (c1, c2) \<Rightarrow>
                   (let phi_x = d_skew phi
                    in d_mat_add J (d_mat_add (d_mat_scale c1 phi_x)
                                              (d_mat_mul (d_mat_scale c2 phi_x) phi_x))))
         else J)"

text \<open>The vector and the matrix of doubles that hold given finite values.\<close>

fun finite_vec :: "vec3 \<Rightarrow> vec3_ieee" where
  "finite_vec (x, y, z) = (Finite x, Finite y, Finite z)"

fun finite_mat :: "mat3 \<Rightarrow> mat3_ieee" where
  "finite_mat (a0, a1, a2) = (finite_vec a0, finite_vec a1, finite_vec a2)"

text \<open>
  What the functor takes from headers that are not among the sources. The abstract class
  \<open>GyroscopeModel\<close> (gyroscope\_models.h) is the record of its two methods used here;
  \<open>TrajectoryEvaluationParams\<close> (trajectory.h) has the six fields that \<open>operator()\<close>
  reads (\<open>stamp\<close> is written \<open>stamp'\<close>); \<open>Trajectory::kSplineOrder\<close> and
  \<open>BSpline<kSplineOrder, T>::Evaluate\<close> are the two fields of \<open>BSpline\<close>. The members of
  the functor are written without their trailing underscore, and the
  \<open>std::unique_ptr<GyroscopeModel>\<close> is an option.
\<close>

record GyroscopeModel =
  NumberOfParameters :: int
  Project :: "real list \<Rightarrow> vec3 \<Rightarrow> error + vec3"

record TrajectoryEvaluationParams =
  num_control_points :: int
  spline_index :: int
  basis_matrix :: "real list list"
  knot0 :: real
  knot1 :: real
  stamp' :: real

record BSpline =
  kSplineOrder :: int
  Evaluate :: "real list list \<Rightarrow> real \<Rightarrow> real \<Rightarrow> real list list \<Rightarrow> real \<Rightarrow> int \<Rightarrow> vec6"

record GyroscopeCostFunctor =
  measurement :: vec3
  gyroscope_model :: "GyroscopeModel option"
  trajectory_evaluation_params :: TrajectoryEvaluationParams

text \<open>
  The solver's \<open>T const* const* parameters\<close> is the list of the parameter blocks, each the
  list of its scalars. C++ leaves a read past the end of an array, and a call through a
  null pointer, undefined: the model stops there with a fault.
\<close>

datatype fault = OutOfBounds | NullPointer

definition parameter_block ::
  "real list list \<Rightarrow> GyroscopeParameterIndices \<Rightarrow> fault + real list" where
  "parameter_block parameters i =
     (if 0 \<le> index_of i \<and> nat (index_of i) < length parameters
      then Inr (parameters ! nat (index_of i)) else Inl OutOfBounds)"

text \<open>\<open>Eigen::Map\<close> of a vector of \<open>n\<close> scalars, read from the start of a block.\<close>

definition map_vector :: "real list \<Rightarrow> int \<Rightarrow> fault + real list" where
  "map_vector block n =
     (if 0 \<le> n \<and> nat n \<le> length block then Inr (take (nat n) block) else Inl OutOfBounds)"

text \<open>\<open>Eigen::Map\<close> of a quaternion: four scalars, the coefficients \<open>x\<close>, \<open>y\<close>, \<open>z\<close>, \<open>w\<close>.\<close>

fun map_quaternion :: "real list \<Rightarrow> fault + quaternion" where
  "map_quaternion (x # y # z # w # rest) = Inr (x, y, z, w)"
| "map_quaternion _ = Inl OutOfBounds"

text \<open>The read \<open>block[0]\<close> of the first scalar of a block.\<close>

fun first_scalar :: "real list \<Rightarrow> fault + real" where
  "first_scalar (x # rest) = Inr x"
| "first_scalar [] = Inl OutOfBounds"

text \<open>
  \<open>Eigen::Map\<close> of a matrix with \<open>rows\<close> rows and six columns, stored column by column
  (Eigen's default): the list of its rows.
\<close>

definition map_matrix6 :: "real list \<Rightarrow> int \<Rightarrow> fault + real list list" where
  "map_matrix6 block rows =
     (if 0 \<le> rows \<and> nat (rows * 6) \<le> length block
      then Inr (map (\<lambda>r. map (\<lambda>c. block ! (c * nat rows + r)) [0, 1, 2, 3, 4, 5])
                  [0 ..< nat rows])
      else Inl OutOfBounds)"

text \<open>\<open>m.block(start_row, 0, block_rows, 6)\<close> of a matrix with six columns.\<close>

definition matrix_block :: "real list list \<Rightarrow> int \<Rightarrow> int \<Rightarrow> fault + real list list" where
  "matrix_block m start_row block_rows =
     (if 0 \<le> start_row \<and> 0 \<le> block_rows \<and> nat (start_row + block_rows) \<le> length m
      then Inr (take (nat block_rows) (drop (nat start_row) m))
      else Inl OutOfBounds)"

text \<open>
  Lines 59 to 86: what \<open>operator()\<close> reads from the parameter blocks. The translation
  \<open>t_sensorrig_gyroscope\<close> is mapped (line 70) and never read, so only its block pointer is
  fetched.
\<close>

record GyroscopeArguments =
  arg_intrinsics :: "real list"
  arg_q_sensorrig_gyroscope :: quaternion
  arg_latency :: real
  arg_control_points :: "real list list"

definition parse_parameters ::
  "BSpline \<Rightarrow> GyroscopeCostFunctor \<Rightarrow> real list list \<Rightarrow> fault + GyroscopeArguments" where
  "parse_parameters bspline f parameters =
     (case parameter_block parameters kIntrinsicsIndex of Inl e \<Rightarrow> Inl e
      | Inr intrinsics_ptr \<Rightarrow>
     (case gyroscope_model f of None \<Rightarrow> Inl NullPointer
      | Some model \<Rightarrow>
     (case map_vector intrinsics_ptr (NumberOfParameters model) of Inl e \<Rightarrow> Inl e
      | Inr intrinsics_vector \<Rightarrow>
     (case parameter_block parameters kExtrinsicsRotationIndex of Inl e \<Rightarrow> Inl e
      | Inr rotation_ptr \<Rightarrow>
     (case map_quaternion rotation_ptr of Inl e \<Rightarrow> Inl e
      | Inr q_sensorrig_gyroscope \<Rightarrow>
     (case parameter_block parameters kExtrinsicsTranslationIndex of Inl e \<Rightarrow> Inl e
      | Inr translation_ptr \<Rightarrow>
     (case parameter_block parameters kLatencyIndex of Inl e \<Rightarrow> Inl e
      | Inr latency_ptr \<Rightarrow>
     (case first_scalar latency_ptr of Inl e \<Rightarrow> Inl e
      | Inr latency \<Rightarrow>
     (case parameter_block parameters kSensorRigPoseSplineControlPointsIndex of
        Inl e \<Rightarrow> Inl e
      | Inr control_points_ptr \<Rightarrow>
     (case map_matrix6 control_points_ptr
             (num_control_points (trajectory_evaluation_params f)) of
        Inl e \<Rightarrow> Inl e
      | Inr all_control_points \<Rightarrow>
     (case matrix_block all_control_points
             (spline_index (trajectory_evaluation_params f)) (kSplineOrder bspline) of
        Inl e \<Rightarrow> Inl e
      | Inr control_points \<Rightarrow>
          Inr \<lparr>arg_intrinsics = intrinsics_vector,
               arg_q_sensorrig_gyroscope = q_sensorrig_gyroscope,
               arg_latency = latency,
               arg_control_points = control_points\<rparr>)))))))))))"

text \<open>Lines 87 to 101: the pose vector (\<open>derivative = 0\<close>) and its rate (\<open>derivative = 1\<close>).\<close>

definition evaluate_spline ::
  "BSpline \<Rightarrow> GyroscopeCostFunctor \<Rightarrow> GyroscopeArguments \<Rightarrow> int \<Rightarrow> vec6" where
  "evaluate_spline bspline f args derivative =
     (let p = trajectory_evaluation_params f;
          stamp = stamp' p - arg_latency args
      in Evaluate bspline (arg_control_points args) (knot0 p) (knot1 p) (basis_matrix p)
           stamp derivative)"

text \<open>
  Lines 102 to 130: the angular velocity of the sensor.
  \<open>q_sensorrig_gyroscope.inverse() * J * phi_dot\<close> is \<open>(q.inverse() * J) * phi_dot\<close> in
  C++, and Eigen's product of a rotation with a 3 by 3 matrix is the product of its
  rotation matrix with that matrix.
\<close>

definition omega_sensor_world ::
  "BSpline \<Rightarrow> GyroscopeCostFunctor \<Rightarrow> GyroscopeArguments \<Rightarrow> vec3" where
  "omega_sensor_world bspline f args =
     (let pose_vector = evaluate_spline bspline f args 0;
          pose_dot_vector = evaluate_spline bspline f args 1;
          phi = vec_neg (head3 pose_vector);
          J = fst (manifold_jacobian phi);
          phi_dot = vec_neg (head3 pose_dot_vector)
      in mat_vec
           (mat_mul (toRotationMatrix (quat_inverse (arg_q_sensorrig_gyroscope args))) J)
           phi_dot)"

text \<open>
  \<open>bool operator()(T const* const* parameters, T* residual)\<close>: the result is the returned
  flag with the three residual scalars as the call leaves them; \<open>residual\<close> is what they
  held before the call.
\<close>

definition GyroscopeCostFunctor_call ::
  "BSpline \<Rightarrow> GyroscopeCostFunctor \<Rightarrow> real list list \<Rightarrow> vec3 \<Rightarrow> fault + (bool \<times> vec3)" where
  "GyroscopeCostFunctor_call bspline f parameters residual =
     (case parse_parameters bspline f parameters of Inl e \<Rightarrow> Inl e
      | Inr args \<Rightarrow>
     (case gyroscope_model f of None \<Rightarrow> Inl NullPointer
      | Some model \<Rightarrow>
     (case Project model (arg_intrinsics args) (omega_sensor_world bspline f args) of
        Inr projection \<Rightarrow> Inr (True, vec_sub (measurement f) projection)
      | Inl status \<Rightarrow> Inr (False, residual))))"

subsection \<open>Example values\<close>

text \<open>
  The measurement of the specification's scenario (section 8), the same measurement with
  a NaN stamp, and a camera that holds no measurement and no model.
\<close>

definition scenario_measurement :: CameraMeasurement where
  "scenario_measurement =
     \<lparr>pixel = (Finite 320, Finite 240),
      id' = \<lparr>stamp = Finite 0, image_id = 1, model_id = 0, feature_id = 5\<rparr>\<rparr>"

definition nan_measurement :: CameraMeasurement where
  "nan_measurement =
     \<lparr>pixel = (Finite 320, Finite 240),
      id' = \<lparr>stamp = NaN, image_id = 1, model_id = 0, feature_id = 5\<rparr>\<rparr>"

definition empty_camera :: "(quaternion \<times> vec3) Camera" where
  "empty_camera =
     \<lparr>name = ''camera'', intrinsics_enabled = False, extrinsics_enabled = False,
      image_size = \<lparr>width = 640, height = 480\<rparr>, camera_model = None,
      T_sensorrig_sensor = ((0, 0, 0, 1), (0, 0, 0)), intrinsics = [],
      id_to_measurement = []\<rparr>"

text \<open>
  A gyroscope model with one parameter, a scale, which rejects the scale zero; a stand-in
  for the spline engine, of order two, whose pose is the first control point of the window
  and whose pose rate is the second; a functor on them; and two parameter arrays for it:
  one with the control points in the block at index 7, one with the five blocks that the
  documentation of \<open>operator()\<close> lists.
\<close>

definition scale_model :: GyroscopeModel where
  "scale_model =
     \<lparr>NumberOfParameters = 1,
      Project = (\<lambda>intrinsics_vector omega.
        case intrinsics_vector of
          [s] \<Rightarrow> if s = 0 then Inl ProjectionInvalid else Inr (vec_scale s omega)
        | _ \<Rightarrow> Inl ProjectionInvalid)\<rparr>"

fun vec6_of_row :: "real list \<Rightarrow> vec6" where
  "vec6_of_row [a, b, c, d, e, f] = (a, b, c, d, e, f)"
| "vec6_of_row _ = (0, 0, 0, 0, 0, 0)"

definition two_point_spline :: BSpline where
  "two_point_spline =
     \<lparr>kSplineOrder = 2,
      Evaluate = (\<lambda>control_points k0 k1 basis t derivative.
        vec6_of_row (control_points ! (if derivative = 0 then 0 else 1)))\<rparr>"

definition example_functor :: GyroscopeCostFunctor where
  "example_functor =
     \<lparr>measurement = (1, 2, 3),
      gyroscope_model = Some scale_model,
      trajectory_evaluation_params =
        \<lparr>num_control_points = 2, spline_index = 0, basis_matrix = [],
         knot0 = 0, knot1 = 1, stamp' = 1 / 2\<rparr>\<rparr>"

definition example_control_points :: "real list" where
  "example_control_points = [0, 1, 0, 0, 0, 0, 0, 0, 0, 0, 0, 0]"

definition parameters_at_7 :: "real \<Rightarrow> real list list" where
  "parameters_at_7 scale =
     [[scale], [0, 0, 0, 1], [0, 0, 0], [0], [], [], [], example_control_points]"

text \<open>What \<open>operator()\<close> reads from \<open>parameters_at_7 scale\<close>.\<close>

definition example_arguments :: "real \<Rightarrow> GyroscopeArguments" where
  "example_arguments scale =
     \<lparr>arg_intrinsics = [scale], arg_q_sensorrig_gyroscope = (0, 0, 0, 1), arg_latency = 0,
      arg_control_points = [[0, 0, 0, 0, 0, 0], [1, 0, 0, 0, 0, 0]]\<rparr>"

definition parameters_five_blocks :: "real list list" where
  "parameters_five_blocks = [[2], [0, 0, 0, 1], [0, 0, 0], [0], example_control_points]"

section \<open>Theorems\<close>

lemma double_eq_iff: "double_eq a b \<longleftrightarrow> a = b \<and> a \<noteq> NaN"
  by (auto simp: double_eq_def)

lemma ObservationId_eq_iff: "ObservationId_eq a b \<longleftrightarrow> a = b \<and> stamp a \<noteq> NaN"
  by (auto simp: ObservationId_eq_def double_eq_iff)

text \<open>
  C6. \<open>CameraModel::Create\<close> returns a concrete model (a non-null pointer) exactly for the
  tags \<open>kOpenCv5\<close> and \<open>kKannalaBrandt\<close>, the \<open>OpenCv5Model\<close> and the \<open>KannalaBrandtModel\<close>
  respectively, and the null pointer for every other tag. The function is total and its
  result type has no error value: an unrecognised tag is answered by \<open>None\<close>.
\<close>

theorem Create_recognized:
  "Create kOpenCv5 = Some OpenCv5Model \<and>
   Create kKannalaBrandt = Some KannalaBrandtModel \<and>
   (\<forall>n. Create (kOther n) = None) \<and>
   ((Create tag \<noteq> None) = (tag = kOpenCv5 \<or> tag = kKannalaBrandt))"
  by (cases tag) simp_all

text \<open>
  C9. \<open>a == b\<close> holds exactly when the four fields \<open>stamp\<close>, \<open>image_id\<close>, \<open>model_id\<close> and
  \<open>feature_id\<close> are pairwise \<open>==\<close> (the stamps by the comparison of doubles); the hash of an
  id feeds exactly these four fields, in this order, to the hash state; and two ids that
  are \<open>==\<close> have the same hash, whatever the hashers of \<open>double\<close> and \<open>int\<close> and the
  initial hash state are.
\<close>

theorem ObservationId_eq_hash:
  "(ObservationId_eq a b =
      (double_eq (stamp a) (stamp b) \<and> image_id a = image_id b \<and>
       model_id a = model_id b \<and> feature_id a = feature_id b)) \<and>
   AbslHashValue hash_double hash_int h a =
     hash_int (hash_int (hash_int (hash_double h (stamp a)) (image_id a)) (model_id a))
       (feature_id a) \<and>
   (ObservationId_eq a b \<longrightarrow>
      AbslHashValue hash_double hash_int h a = AbslHashValue hash_double hash_int h b)"
proof (intro conjI impI)
  show "ObservationId_eq a b =
      (double_eq (stamp a) (stamp b) \<and> image_id a = image_id b \<and>
       model_id a = model_id b \<and> feature_id a = feature_id b)"
    by (simp add: ObservationId_eq_def)
next
  show "AbslHashValue hash_double hash_int h a =
     hash_int (hash_int (hash_int (hash_double h (stamp a)) (image_id a)) (model_id a))
       (feature_id a)"
    by (simp add: AbslHashValue_def)
next
  assume "ObservationId_eq a b"
  then have "stamp a = stamp b" "image_id a = image_id b" "model_id a = model_id b"
    "feature_id a = feature_id b"
    by (simp_all add: ObservationId_eq_def double_eq_iff)
  then show "AbslHashValue hash_double hash_int h a = AbslHashValue hash_double hash_int h b"
    by (simp add: AbslHashValue_def)
qed

theorem ObservationId_eq_hash_witness:
  "ObservationId_eq \<lparr>stamp = Finite 0, image_id = 1, model_id = 0, feature_id = 5\<rparr>
     \<lparr>stamp = Finite 0, image_id = 1, model_id = 0, feature_id = 5\<rparr> \<and>
   AbslHashValue (\<lambda>h d. case d of Finite r \<Rightarrow> 31 * h + \<lfloor>r\<rfloor> | _ \<Rightarrow> 31 * h - 1)
       (\<lambda>h v. 31 * h + v) (7::int)
       \<lparr>stamp = Finite 0, image_id = 1, model_id = 0, feature_id = 5\<rparr> = 6465613 \<and>
   \<not> ObservationId_eq \<lparr>stamp = Finite 0, image_id = 1, model_id = 0, feature_id = 5\<rparr>
     \<lparr>stamp = Finite 0, image_id = 2, model_id = 0, feature_id = 5\<rparr>"
  using ObservationId_eq_hash
    [of "\<lparr>stamp = Finite 0, image_id = 1, model_id = 0, feature_id = 5\<rparr>"
        "\<lparr>stamp = Finite 0, image_id = 1, model_id = 0, feature_id = 5\<rparr>"
        "\<lambda>h d. case d of Finite r \<Rightarrow> 31 * h + \<lfloor>r\<rfloor> | _ \<Rightarrow> 31 * h - 1"
        "\<lambda>h v. 31 * h + v" "7::int"]
  by (simp add: ObservationId_eq_def double_eq_def)

lemma flat_hash_map_find_NaN: "stamp k = NaN \<Longrightarrow> flat_hash_map_find es k = None"
  by (induction es) (auto simp: ObservationId_eq_def double_eq_def)

text \<open>
  C10. Equality of observation ids is not reflexive: an id whose stamp is NaN is not \<open>==\<close>
  to itself, nor to any other id, on either side; so no lookup in the measurement table
  that is keyed on it finds an entry, whatever the table holds.
\<close>

theorem ObservationId_eq_NaN:
  "stamp x = NaN \<Longrightarrow>
     \<not> ObservationId_eq x x \<and>
     (\<forall>k. \<not> ObservationId_eq k x \<and> \<not> ObservationId_eq x k) \<and>
     (\<forall>es :: CameraMeasurement flat_hash_map.
        flat_hash_map_find es x = None \<and> \<not> flat_hash_map_contains es x)"
  by (simp add: flat_hash_map_find_NaN flat_hash_map_contains_def)
     (simp add: ObservationId_eq_def double_eq_def)

theorem ObservationId_eq_NaN_witness:
  "stamp \<lparr>stamp = NaN, image_id = 1, model_id = 0, feature_id = 5\<rparr> = NaN \<and>
   \<not> ObservationId_eq \<lparr>stamp = NaN, image_id = 1, model_id = 0, feature_id = 5\<rparr>
        \<lparr>stamp = NaN, image_id = 1, model_id = 0, feature_id = 5\<rparr> \<and>
   flat_hash_map_find
     [(\<lparr>stamp = NaN, image_id = 1, model_id = 0, feature_id = 5\<rparr>,
       \<lparr>pixel = (Finite 320, Finite 240),
        id' = \<lparr>stamp = NaN, image_id = 1, model_id = 0, feature_id = 5\<rparr>\<rparr>)]
     \<lparr>stamp = NaN, image_id = 1, model_id = 0, feature_id = 5\<rparr> = None"
  using ObservationId_eq_NaN
    [of "\<lparr>stamp = NaN, image_id = 1, model_id = 0, feature_id = 5\<rparr>"]
  by simp

subsection \<open>The measurement store\<close>

lemma flat_hash_map_contains_iff:
  "flat_hash_map_contains es k \<longleftrightarrow> k \<in> fst ` set es \<and> stamp k \<noteq> NaN"
  unfolding flat_hash_map_contains_def
  by (induction es) (auto simp: ObservationId_eq_iff split: if_splits)

lemma AddMeasurement_store:
  "id_to_measurement (snd (AddMeasurement cam m)) =
     (if id' m \<in> fst ` set (id_to_measurement cam) \<and> stamp (id' m) \<noteq> NaN
      then id_to_measurement cam else id_to_measurement cam @ [(id' m, m)])"
  by (simp add: AddMeasurement_def flat_hash_map_insert_def flat_hash_map_contains_iff)

lemma add_calls_keys:
  "\<forall>m \<in> set ms. stamp (id' m) \<noteq> NaN \<Longrightarrow>
   distinct (map fst (id_to_measurement cam)) \<Longrightarrow>
   distinct (map fst (id_to_measurement (add_calls cam ms))) \<and>
   fst ` set (id_to_measurement (add_calls cam ms)) =
     fst ` set (id_to_measurement cam) \<union> id' ` set ms"
proof (induction ms arbitrary: cam)
  case Nil
  then show ?case by simp
next
  case (Cons m ms)
  let ?cam = "snd (AddMeasurement cam m)"
  have d: "distinct (map fst (id_to_measurement ?cam))"
    using Cons.prems by (auto simp: AddMeasurement_store)
  have k: "fst ` set (id_to_measurement ?cam) =
      insert (id' m) (fst ` set (id_to_measurement cam))"
    using Cons.prems by (auto simp: AddMeasurement_store)
  from Cons.IH [OF _ d] Cons.prems k show ?case by auto
qed

lemmas store_defs = AddMeasurement_def flat_hash_map_contains_def flat_hash_map_insert_def
  NumberOfMeasurements_def ObservationId_eq_def double_eq_def

text \<open>
  C7, as it is stated, fails on ids whose stamp is NaN. Two \<open>AddMeasurement\<close> calls with
  the same measurement, whose id has a NaN stamp, on a camera that holds no measurement:
  one distinct id has been submitted and the camera holds two measurements; the second
  call, whose id is stored, returns OK and adds an entry.
\<close>

theorem AddMeasurement_NaN_counterexample:
  "card (id' ` set [nan_measurement, nan_measurement]) = 1 \<and>
   NumberOfMeasurements (add_calls empty_camera [nan_measurement, nan_measurement]) = 2 \<and>
   id' nan_measurement \<in>
     fst ` set (id_to_measurement (snd (AddMeasurement empty_camera nan_measurement))) \<and>
   fst (AddMeasurement (snd (AddMeasurement empty_camera nan_measurement))
          nan_measurement) = Inr () \<and>
   id_to_measurement
     (snd (AddMeasurement (snd (AddMeasurement empty_camera nan_measurement))
             nan_measurement)) \<noteq>
   id_to_measurement (snd (AddMeasurement empty_camera nan_measurement))"
  by (simp add: store_defs empty_camera_def nan_measurement_def)

text \<open>
  C7, amended. For every sequence of \<open>AddMeasurement\<close> calls, on a camera that holds no
  measurement, in which no submitted id has a NaN stamp, \<open>NumberOfMeasurements\<close> is the
  number of distinct ids submitted (the number of elements of the set of the submitted
  ids); and after the sequence an \<open>AddMeasurement\<close> of any measurement whose id is one of
  the submitted ids returns DuplicateEntry and leaves the camera, and with it the stored
  measurements, as it was.
\<close>

theorem AddMeasurement_count:
  assumes "id_to_measurement cam = []" and "\<forall>m \<in> set ms. stamp (id' m) \<noteq> NaN"
  shows "NumberOfMeasurements (add_calls cam ms) = int (card (id' ` set ms)) \<and>
    (\<forall>m. id' m \<in> id' ` set ms \<longrightarrow>
       AddMeasurement (add_calls cam ms) m = (Inl DuplicateEntry, add_calls cam ms))"
proof (intro conjI allI impI)
  have "distinct (map fst (id_to_measurement cam))" using assms(1) by simp
  from add_calls_keys [OF assms(2) this]
  have d: "distinct (map fst (id_to_measurement (add_calls cam ms)))"
    and k: "fst ` set (id_to_measurement (add_calls cam ms)) = id' ` set ms"
    using assms(1) by auto
  have "length (id_to_measurement (add_calls cam ms)) =
        card (set (map fst (id_to_measurement (add_calls cam ms))))"
    using distinct_card [OF d] by simp
  then show "NumberOfMeasurements (add_calls cam ms) = int (card (id' ` set ms))"
    using k by (simp add: NumberOfMeasurements_def)
  fix m :: CameraMeasurement
  assume m: "id' m \<in> id' ` set ms"
  then have "stamp (id' m) \<noteq> NaN" using assms(2) by auto
  then have "flat_hash_map_contains (id_to_measurement (add_calls cam ms)) (id' m)"
    using k m by (simp add: flat_hash_map_contains_iff)
  then show "AddMeasurement (add_calls cam ms) m = (Inl DuplicateEntry, add_calls cam ms)"
    by (simp add: AddMeasurement_def)
qed

theorem AddMeasurement_count_witness:
  "id_to_measurement empty_camera = [] \<and>
   stamp (id' scenario_measurement) \<noteq> NaN \<and>
   NumberOfMeasurements (add_calls empty_camera [scenario_measurement, scenario_measurement])
     = 1 \<and>
   AddMeasurement (add_calls empty_camera [scenario_measurement, scenario_measurement])
       scenario_measurement =
     (Inl DuplicateEntry,
      add_calls empty_camera [scenario_measurement, scenario_measurement])"
proof -
  have e: "id_to_measurement empty_camera = []" by (simp add: empty_camera_def)
  have s: "stamp (id' scenario_measurement) \<noteq> NaN" by (simp add: scenario_measurement_def)
  have a: "\<forall>m \<in> set [scenario_measurement, scenario_measurement]. stamp (id' m) \<noteq> NaN"
    using s by simp
  note t = AddMeasurement_count [OF e a]
  have n: "NumberOfMeasurements
      (add_calls empty_camera [scenario_measurement, scenario_measurement]) = 1"
    using t [THEN conjunct1] by simp
  have "id' scenario_measurement \<in> id' ` set [scenario_measurement, scenario_measurement]"
    by simp
  then have dup: "AddMeasurement
      (add_calls empty_camera [scenario_measurement, scenario_measurement])
      scenario_measurement =
     (Inl DuplicateEntry,
      add_calls empty_camera [scenario_measurement, scenario_measurement])"
    using t [THEN conjunct2] by blast
  show ?thesis using e s n dup by (intro conjI)
qed

text \<open>
  C8. The overload of \<open>Camera::Project\<close> without times returns a plain list of
  measurements, for every camera, trajectory and world model: the empty list when no model
  is set, and otherwise the measurements synthesized at every timestamp that the
  trajectory enumerates, which is what the overload with times returns for these times.
  The overload with times fails, with a ConfigurationError, exactly when no model is set.
\<close>

theorem Project_all_times_total:
  "Project_all_times synthesize timestamps cam trajectory world =
     (case camera_model cam of
        None \<Rightarrow> []
      | Some model \<Rightarrow>
          concat (map (synthesize cam model trajectory world) (timestamps trajectory))) \<and>
   (\<forall>measurements.
      Project_at_times synthesize cam (timestamps trajectory) trajectory world =
        Inr measurements \<longrightarrow>
      Project_all_times synthesize timestamps cam trajectory world = measurements) \<and>
   ((\<exists>e. Project_at_times synthesize cam interp_times trajectory world = Inl e) =
      (camera_model cam = None)) \<and>
   (camera_model cam = None \<longrightarrow>
      Project_at_times synthesize cam interp_times trajectory world =
        Inl ConfigurationError)"
  by (cases "camera_model cam") (simp_all add: Project_all_times_def Project_at_times_def)

theorem Project_all_times_total_witness:
  "camera_model empty_camera = None \<and>
   Project_at_times (\<lambda>cam model trajectory world t. [scenario_measurement]) empty_camera
     [Finite 0] () () = Inl ConfigurationError \<and>
   Project_all_times (\<lambda>cam model trajectory world t. [scenario_measurement])
     (\<lambda>trajectory. [Finite 0, Finite 1]) empty_camera () () = [] \<and>
   Project_at_times (\<lambda>cam model trajectory world t. [scenario_measurement])
     (empty_camera\<lparr>camera_model := Some OpenCv5Model\<rparr>) [Finite 0, Finite 1] () () =
     Inr [scenario_measurement, scenario_measurement] \<and>
   Project_all_times (\<lambda>cam model trajectory world t. [scenario_measurement])
     (\<lambda>trajectory. [Finite 0, Finite 1])
     (empty_camera\<lparr>camera_model := Some OpenCv5Model\<rparr>) () () =
     [scenario_measurement, scenario_measurement]"
proof -
  have n: "camera_model empty_camera = None" by (simp add: empty_camera_def)
  have s: "camera_model (empty_camera\<lparr>camera_model := Some OpenCv5Model\<rparr>) =
      Some OpenCv5Model"
    by simp
  show ?thesis
    using n
      Project_all_times_total
        [of "\<lambda>cam model trajectory world t. [scenario_measurement]"
            "\<lambda>trajectory. [Finite 0, Finite 1]" empty_camera "()" "()" "[Finite 0]"]
      Project_all_times_total
        [of "\<lambda>cam model trajectory world t. [scenario_measurement]"
            "\<lambda>trajectory. [Finite 0, Finite 1]"
            "empty_camera\<lparr>camera_model := Some OpenCv5Model\<rparr>" "()" "()" "[]"]
    by (simp add: s Project_at_times_def)
qed

subsection \<open>The gyroscope cost functor\<close>

lemma squaredNorm_nonneg: "0 \<le> squaredNorm v"
  by (cases v) simp

lemma norm3_sq: "(norm3 v)\<^sup>2 = squaredNorm v"
  by (simp add: norm3_def squaredNorm_nonneg)

lemma norm3_zero_iff: "norm3 v = 0 \<longleftrightarrow> squaredNorm v = 0"
  by (simp add: norm3_def)

lemma mat_mul_scale: "mat_mul (mat_scale c A) B = mat_scale c (mat_mul A B)"
  by (cases A rule: transpose3.cases; cases B rule: transpose3.cases) (simp add: algebra_simps)

lemma skew_cross: "mat_vec (skew p) v = cross p v"
  by (cases p; cases v) simp

lemma manifold_jacobian_zero: "squaredNorm v = 0 \<Longrightarrow> manifold_jacobian v = (identity3, [])"
  by (simp add: manifold_jacobian_def)

lemma abs_le_of_sq: 
  fixes x a :: real
  assumes "x * x \<le> a * a" "0 \<le> a" shows "\<bar>x\<bar> \<le> a"
  using assms by (metis abs_le_square_iff abs_of_nonneg power2_eq_square)

lemma abs_mult_le:
  fixes x y a :: real
  assumes "\<bar>x\<bar> \<le> a" "\<bar>y\<bar> \<le> a" shows "\<bar>x * y\<bar> \<le> a * a"
  using assms by (simp add: abs_mult mult_mono)

lemma component_le_norm:
  fixes x y z d :: real
  assumes s: "x * x + y * y + z * z = d * d" and d: "0 \<le> d"
  shows "\<bar>x\<bar> \<le> d"
proof -
  have "0 \<le> y * y" "0 \<le> z * z" by simp_all
  then have "x * x \<le> d * d" using s by linarith
  then show ?thesis using d by (rule abs_le_of_sq)
qed

lemma taylor_coefficient_bounds:
  fixes s :: real
  assumes "0 \<le> s" "s \<le> 1"
  shows "0 \<le> 1 / 2 - s * (1 / 24) + s * s * (1 / 720)"
    and "1 / 2 - s * (1 / 24) + s * s * (1 / 720) \<le> 1 / 2"
    and "0 \<le> 1 / 6 - s * (1 / 120) + s * s * (1 / 5040)"
    and "1 / 6 - s * (1 / 120) + s * s * (1 / 5040) \<le> 1 / 6"
proof -
  have a: "0 \<le> s * s" using assms by simp
  have b: "s * s \<le> s" using assms by (simp add: mult_left_le)
  show "0 \<le> 1 / 2 - s * (1 / 24) + s * s * (1 / 720)" using a assms by simp
  show "1 / 2 - s * (1 / 24) + s * s * (1 / 720) \<le> 1 / 2" using b assms by simp
  show "0 \<le> 1 / 6 - s * (1 / 120) + s * s * (1 / 5040)" using a assms by simp
  show "1 / 6 - s * (1 / 120) + s * s * (1 / 5040) \<le> 1 / 6" using b assms by simp
qed

lemma jacobian_entries:
  assumes "x * x + y * y + z * z \<noteq> 0"
    and "jacobian_coefficients (x * x + y * y + z * z) = ((c1, c2), ds)"
  shows "manifold_jacobian (x, y, z) =
     (((1 - c2 * (z * z + y * y), - (c1 * z) + c2 * (x * y), c1 * y + c2 * (x * z)),
       (c1 * z + c2 * (x * y), 1 - c2 * (z * z + x * x), - (c1 * x) + c2 * (y * z)),
       (- (c1 * y) + c2 * (x * z), c1 * x + c2 * (y * z), 1 - c2 * (y * y + x * x))), ds)"
  using assms by (simp add: manifold_jacobian_def identity3_def algebra_simps)

lemma manifold_jacobian_near_identity:
  assumes n: "norm3 phi = d" and d: "0 < d" "d < 1 / 10 ^ 7"
  shows "mat_dist_max (fst (manifold_jacobian phi)) identity3 \<le> d \<and>
         snd (manifold_jacobian phi) = []"
proof -
  obtain x y z where phi: "phi = (x, y, z)" by (cases phi)
  define s where "s = x * x + y * y + z * z"
  have "squaredNorm phi = (norm3 phi)\<^sup>2" by (simp add: norm3_def squaredNorm_nonneg)
  then have s: "s = d * d" using n phi by (simp add: power2_eq_square s_def)
  have sx: "x * x + y * y + z * z = d * d" using s by (simp add: s_def)
  have sy: "y * y + x * x + z * z = d * d" using s by (simp add: s_def)
  have sz: "z * z + y * y + x * x = d * d" using s by (simp add: s_def)
  have d0: "0 \<le> d" using d by simp
  have bx: "\<bar>x\<bar> \<le> d" using sx d0 by (rule component_le_norm)
  have by': "\<bar>y\<bar> \<le> d" using sy d0 by (rule component_le_norm)
  have bz: "\<bar>z\<bar> \<le> d" using sz d0 by (rule component_le_norm)
  have d1: "d \<le> 1" using d by simp
  have dd: "d * d \<le> d" using d0 d1 by (simp add: mult_left_le)
  have s01: "0 \<le> s" "s \<le> 1" using s d0 dd d1 by simp_all
  have snz: "s \<noteq> 0" using s d by simp
  have th: "sqrt s = d" using n phi by (simp add: norm3_def s_def)
  define c1 where "c1 = 1 / 2 - s * (1 / 24) + s * s * (1 / 720)"
  define c2 where "c2 = 1 / 6 - s * (1 / 120) + s * s * (1 / 5040)"
  have co: "jacobian_coefficients s = ((c1, c2), [])"
    using d by (simp add: jacobian_coefficients_def Let_def th c1_def c2_def)
  have c1: "0 \<le> c1" "c1 \<le> 1 / 2"
    unfolding c1_def using taylor_coefficient_bounds [OF s01] by simp_all
  have c2: "0 \<le> c2" "c2 \<le> 1 / 6"
    unfolding c2_def using taylor_coefficient_bounds [OF s01] by simp_all
  have J: "manifold_jacobian phi =
     (((1 - c2 * (z * z + y * y), - (c1 * z) + c2 * (x * y), c1 * y + c2 * (x * z)),
       (c1 * z + c2 * (x * y), 1 - c2 * (z * z + x * x), - (c1 * x) + c2 * (y * z)),
       (- (c1 * y) + c2 * (x * z), c1 * x + c2 * (y * z), 1 - c2 * (y * y + x * x))), [])"
    unfolding phi using snz co unfolding s_def by (rule jacobian_entries)
  have lin: "\<bar>c1 * a + c2 * b\<bar> \<le> d" "\<bar>- (c1 * a) + c2 * b\<bar> \<le> d"
    if "\<bar>a\<bar> \<le> d" "\<bar>b\<bar> \<le> d * d" for a b
  proof -
    have "\<bar>c1 * a\<bar> \<le> (1 / 2) * d"
      unfolding abs_mult using c1 that(1) by (intro mult_mono) simp_all
    moreover have "\<bar>c2 * b\<bar> \<le> (1 / 6) * (d * d)"
      unfolding abs_mult using c2 that(2) d0 by (intro mult_mono) simp_all
    ultimately have t: "\<bar>c1 * a\<bar> + \<bar>c2 * b\<bar> \<le> d" using dd d0 by simp
    have "\<bar>c1 * a + c2 * b\<bar> \<le> \<bar>c1 * a\<bar> + \<bar>c2 * b\<bar>" by (rule abs_triangle_ineq)
    then show "\<bar>c1 * a + c2 * b\<bar> \<le> d" using t by simp
    have "\<bar>- (c1 * a) + c2 * b\<bar> \<le> \<bar>- (c1 * a)\<bar> + \<bar>c2 * b\<bar>" by (rule abs_triangle_ineq)
    then show "\<bar>- (c1 * a) + c2 * b\<bar> \<le> d" using t by simp
  qed
  have diag: "\<bar>1 - c2 * (a + b) - 1\<bar> \<le> d" if "\<bar>a\<bar> \<le> d * d" "\<bar>b\<bar> \<le> d * d" for a b
  proof -
    have "\<bar>a + b\<bar> \<le> 2 * (d * d)" using that by simp
    then have "\<bar>c2 * (a + b)\<bar> \<le> (1 / 6) * (2 * (d * d))"
      unfolding abs_mult using c2 d0 by (intro mult_mono) simp_all
    then have "\<bar>c2 * (a + b)\<bar> \<le> d" using dd d0 by simp
    then show ?thesis by simp
  qed
  note p = abs_mult_le
  note e = lin [OF bz p [OF bx by']] lin [OF by' p [OF bx bz]] lin [OF bx p [OF by' bz]]
  note g = diag [OF p [OF bz bz] p [OF by' by']] diag [OF p [OF bz bz] p [OF bx bx]]
      diag [OF p [OF by' by'] p [OF bx bx]]
  have "mat_dist_max (fst (manifold_jacobian phi)) identity3 \<le> d"
    unfolding J identity3_def fst_conv mat_dist_max.simps vec_dist_max.simps diff_0_right
    by (intro max.boundedI e g)
  then show ?thesis by (simp add: J)
qed

lemma mat_vec_mat_mul: "mat_vec (mat_mul A B) v = mat_vec A (mat_vec B v)"
  by (cases A rule: transpose3.cases; cases B rule: transpose3.cases; cases v) (simp add: algebra_simps)

lemma toRotationMatrix_transform: "mat_vec (toRotationMatrix q) v = quat_transformVector q v"
  by (cases q; cases v) (simp add: Let_def algebra_simps)

lemmas example_defs = parameters_at_7_def parameters_five_blocks_def
  example_control_points_def example_functor_def two_point_spline_def scale_model_def
lemmas parse_defs = parse_parameters_def parameter_block_def map_vector_def
  map_matrix6_def matrix_block_def

lemma upt_2: "[0 ..< 2] = [0, Suc 0]"
  by (simp add: upt_rec numeral_2_eq_2)

lemma parse_parameters_at_7:
  "parse_parameters two_point_spline example_functor (parameters_at_7 s) =
     Inr (example_arguments s)"
  by (simp add: example_defs parse_defs upt_2 example_arguments_def)

lemma parse_parameters_five_blocks:
  "parse_parameters two_point_spline example_functor parameters_five_blocks = Inl OutOfBounds"
  by (simp add: example_defs parse_defs)

lemma example_omega:
  "omega_sensor_world two_point_spline example_functor (example_arguments s) = (- 1, 0, 0)"
  by (simp add: omega_sensor_world_def evaluate_spline_def example_defs example_arguments_def
      manifold_jacobian_def identity3_def quat_inverse_def)

lemma example_arguments_intrinsics: "arg_intrinsics (example_arguments s) = [s]"
  by (simp add: example_arguments_def)

lemma example_functor_fields:
  "gyroscope_model example_functor = Some scale_model"
  "measurement example_functor = (1, 2, 3)"
  by (simp_all add: example_functor_def)
lemma scale_model_Project:
  "Project scale_model [s] w =
     (if s = 0 then Inl ProjectionInvalid else Inr (vec_scale s w))"
  by (simp add: scale_model_def)

text \<open>
  C2. For every vector \<open>phi\<close> of nonzero angle \<open>\<theta>\<close> (its norm), the Jacobian that
  \<open>operator()\<close> computes is \<open>I + c1 [phi]\<^sub>\<times> + c2 [phi]\<^sub>\<times>\<^sup>2\<close>, where \<open>[phi]\<^sub>\<times>\<close> (the
  matrix \<open>skew phi\<close>) is the matrix of the cross product with \<open>phi\<close>, and where
  \<open>c1 = (1 - cos \<theta>) / \<theta>\<^sup>2\<close> and \<open>c2 = (1 - sin \<theta> / \<theta>) / \<theta>\<^sup>2\<close> when
  \<open>\<bar>\<theta>\<bar> \<ge> 1e-7\<close>, and \<open>c1 = 1/2 - \<theta>\<^sup>2/24 + \<theta>\<^sup>4/720\<close> and
  \<open>c2 = 1/6 - \<theta>\<^sup>2/120 + \<theta>\<^sup>4/5040\<close> when \<open>\<bar>\<theta>\<bar> < 1e-7\<close>. In the small-angle
  branch the evaluation divides by nothing at run time; in the other branch it divides by
  \<open>\<theta>\<^sup>2\<close> and by \<open>\<theta>\<close>.
\<close>

theorem manifold_jacobian_formula:
  assumes "norm3 phi \<noteq> 0"
  shows "let \<theta> = norm3 phi;
             c1 = (if \<bar>\<theta>\<bar> < 1 / 10 ^ 7 then 1 / 2 - \<theta>\<^sup>2 / 24 + \<theta> ^ 4 / 720
                   else (1 - cos \<theta>) / \<theta>\<^sup>2);
             c2 = (if \<bar>\<theta>\<bar> < 1 / 10 ^ 7 then 1 / 6 - \<theta>\<^sup>2 / 120 + \<theta> ^ 4 / 5040
                   else (1 - sin \<theta> / \<theta>) / \<theta>\<^sup>2)
         in fst (manifold_jacobian phi) =
              mat_add identity3
                (mat_add (mat_scale c1 (skew phi))
                         (mat_scale c2 (mat_mul (skew phi) (skew phi)))) \<and>
            (\<forall>v. mat_vec (skew phi) v = cross phi v) \<and>
            snd (manifold_jacobian phi) = (if \<bar>\<theta>\<bar> < 1 / 10 ^ 7 then [] else [\<theta>\<^sup>2, \<theta>])"
proof -
  have nz: "squaredNorm phi \<noteq> 0" using assms by (simp add: norm3_zero_iff)
  have sq: "squaredNorm phi = (norm3 phi)\<^sup>2" by (simp add: norm3_sq)
  have fo: "squaredNorm phi * squaredNorm phi = (norm3 phi) ^ 4"
    unfolding sq by (simp add: power4_eq_xxxx power2_eq_square)
  have th: "sqrt (squaredNorm phi) = norm3 phi" by (simp add: norm3_def)
  show ?thesis
    using nz
    by (simp add: manifold_jacobian_def jacobian_coefficients_def Let_def th fo
        mat_mul_scale skew_cross)
       (simp add: sq)
qed

theorem manifold_jacobian_formula_witness:
  "norm3 (0, 0, 1) \<noteq> 0 \<and>
   manifold_jacobian (0, 0, 1) =
     (((sin 1, cos 1 - 1, 0), (1 - cos 1, sin 1, 0), (0, 0, 1)), [1, 1])"
proof -
  have n: "norm3 (0, 0, 1) = 1" by (simp add: norm3_def)
  then have nz: "norm3 (0, 0, 1) \<noteq> 0" by simp
  show ?thesis
    using manifold_jacobian_formula [OF nz] nz
    unfolding n Let_def
    by (simp add: identity3_def prod_eq_iff)
qed

lemma jacobian_coefficients_ieee_finite:
  assumes "0 < s"
  shows "jacobian_coefficients_ieee (Finite s) =
     (Finite (fst (fst (jacobian_coefficients s))), Finite (snd (fst (jacobian_coefficients s))))"
  using assms
  by (simp add: jacobian_coefficients_ieee_def jacobian_coefficients_def Let_def d_sub_def)

lemma sum_squares_pos:
  fixes x y z :: real
  assumes "x * x + y * y + z * z \<noteq> 0"
  shows "0 < x * x + y * y + z * z"
proof -
  have "0 \<le> x * x" "0 \<le> y * y" "0 \<le> z * z" by simp_all
  then show ?thesis using assms by linarith
qed

lemma manifold_jacobian_ieee_finite:
  "manifold_jacobian_ieee (finite_vec phi) = finite_mat (fst (manifold_jacobian phi))"
proof -
  obtain x y z where phi: "phi = (x, y, z)" by (cases phi)
  show ?thesis
  proof (cases "x * x + y * y + z * z = 0")
    case True
    then show ?thesis
      by (simp add: phi manifold_jacobian_ieee_def manifold_jacobian_def double_eq_def
          d_identity3_def identity3_def Let_def)
  next
    case False
    then have pos: "0 < x * x + y * y + z * z" by (rule sum_squares_pos)
    obtain c1 c2 ds where co: "jacobian_coefficients (x * x + y * y + z * z) = ((c1, c2), ds)"
      by (metis prod.exhaust)
    show ?thesis
      using False
      by (simp add: phi manifold_jacobian_ieee_def manifold_jacobian_def double_eq_def
          jacobian_coefficients_ieee_finite [OF pos] co d_identity3_def identity3_def)
  qed
qed

lemma manifold_jacobian_ieee_NaN_input:
  "manifold_jacobian_ieee (NaN, Finite 0, Finite 0) =
     ((NaN, NaN, NaN), (NaN, NaN, NaN), (NaN, NaN, NaN))"
  by (simp add: manifold_jacobian_ieee_def jacobian_coefficients_ieee_def double_eq_def
      d_identity3_def d_sub_def Let_def)

text \<open>
  C3, as it is stated, fails in its tolerance. For the vector \<open>(1e-8, 0, 0)\<close>, of angle
  \<open>1e-8\<close>, and the zero vector, of angle \<open>0\<close>, the two Jacobians differ by at least
  \<open>4.9e-9\<close> in an entry. That is of the first order in the angle: it is far above the
  first term that the three-term Taylor series leave out, \<open>\<theta>\<^sup>6 / 40320\<close>, and above
  \<open>\<theta>\<^sup>2\<close> too, so the two do not agree within a truncation tolerance of the series.
\<close>

theorem manifold_jacobian_gap_counterexample:
  "norm3 (1 / 10 ^ 8, 0, 0) = 1 / 10 ^ 8 \<and> norm3 (0, 0, 0) = 0 \<and>
   49 / 10 ^ 10 \<le> mat_dist_max (fst (manifold_jacobian (1 / 10 ^ 8, 0, 0)))
                      (fst (manifold_jacobian (0, 0, 0))) \<and>
   (1 / 10 ^ 8) ^ 6 / 40320 < (49 / 10 ^ 10 :: real) \<and>
   (1 / 10 ^ 8) ^ 2 < (49 / 10 ^ 10 :: real)"
proof -
  have th: "sqrt (1 / 10 ^ 16) = 1 / 10 ^ 8" by (simp add: real_sqrt_divide)
  have a: "norm3 (1 / 10 ^ 8, 0, 0) = 1 / 10 ^ 8" by (simp add: norm3_def real_sqrt_divide)
  have b: "norm3 (0, 0, 0) = 0" by (simp add: norm3_def)
  have co: "jacobian_coefficients (1 / 10 ^ 16) =
      ((1 / 2 - (1 / 10 ^ 16) * (1 / 24) + (1 / 10 ^ 16) * (1 / 10 ^ 16) * (1 / 720),
        1 / 6 - (1 / 10 ^ 16) * (1 / 120) + (1 / 10 ^ 16) * (1 / 10 ^ 16) * (1 / 5040)), [])"
    unfolding jacobian_coefficients_def Let_def th by simp
  have sq: "(1 / 10 ^ 8) * (1 / 10 ^ 8) + 0 * 0 + 0 * 0 = (1 / 10 ^ 16 :: real)" by simp
  have g: "49 / 10 ^ 10 \<le> mat_dist_max (fst (manifold_jacobian (1 / 10 ^ 8, 0, 0)))
                      (fst (manifold_jacobian (0, 0, 0)))"
    unfolding manifold_jacobian_def Let_def squaredNorm.simps sq co
    by (simp add: identity3_def)
  have t1: "(1 / 10 ^ 8) ^ 6 / 40320 < (49 / 10 ^ 10 :: real)" by (simp add: power_divide)
  have t2: "(1 / 10 ^ 8) ^ 2 < (49 / 10 ^ 10 :: real)" by (simp add: power_divide)
  show ?thesis using a b g t1 t2 by (intro conjI)
qed

text \<open>
  C3, amended. For a vector of angle \<open>\<theta>\<close> with \<open>0 < \<theta> < 1e-7\<close> (the angle \<open>1e-8\<close> is
  one) and a vector of angle \<open>0\<close>, the two Jacobians that \<open>operator()\<close> computes differ
  by at most \<open>\<theta>\<close> in every entry (the second one is the identity). Neither evaluation
  yields a NaN or an infinity: with the special values of IEEE in the arithmetic, every
  entry of both results is the finite value that exact arithmetic gives. And neither
  evaluation divides by zero: neither divides at run time at all.
\<close>

theorem manifold_jacobian_small_angle:
  assumes "norm3 phi = d" and "0 < d" and "d < 1 / 10 ^ 7" and "norm3 phi0 = 0"
  shows "mat_dist_max (fst (manifold_jacobian phi)) (fst (manifold_jacobian phi0)) \<le> d \<and>
         fst (manifold_jacobian phi0) = identity3 \<and>
         manifold_jacobian_ieee (finite_vec phi) = finite_mat (fst (manifold_jacobian phi)) \<and>
         manifold_jacobian_ieee (finite_vec phi0) = finite_mat identity3 \<and>
         snd (manifold_jacobian phi) = [] \<and> snd (manifold_jacobian phi0) = []"
proof -
  have zero: "manifold_jacobian phi0 = (identity3, [])"
    using assms(4) by (simp add: manifold_jacobian_zero norm3_zero_iff)
  have near: "mat_dist_max (fst (manifold_jacobian phi)) identity3 \<le> d \<and>
         snd (manifold_jacobian phi) = []"
    using assms(1-3) by (rule manifold_jacobian_near_identity)
  have "manifold_jacobian_ieee (finite_vec phi0) = finite_mat (fst (manifold_jacobian phi0))"
    by (rule manifold_jacobian_ieee_finite)
  then have "manifold_jacobian_ieee (finite_vec phi0) = finite_mat identity3"
    by (simp add: zero)
  then show ?thesis
    using near manifold_jacobian_ieee_finite [of phi] by (simp add: zero)
qed

theorem manifold_jacobian_small_angle_witness:
  "norm3 (1 / 10 ^ 8, 0, 0) = 1 / 10 ^ 8 \<and> (0 :: real) < 1 / 10 ^ 8 \<and>
   (1 / 10 ^ 8 :: real) < 1 / 10 ^ 7 \<and> norm3 (0, 0, 0) = 0 \<and>
   mat_dist_max (fst (manifold_jacobian (1 / 10 ^ 8, 0, 0)))
     (fst (manifold_jacobian (0, 0, 0))) \<le> 1 / 10 ^ 8 \<and>
   manifold_jacobian_ieee (finite_vec (1 / 10 ^ 8, 0, 0)) =
     finite_mat (fst (manifold_jacobian (1 / 10 ^ 8, 0, 0))) \<and>
   manifold_jacobian_ieee (finite_vec (0, 0, 0)) = finite_mat identity3 \<and>
   snd (manifold_jacobian (1 / 10 ^ 8, 0, 0)) = []"
proof -
  have a: "norm3 (1 / 10 ^ 8, 0, 0) = 1 / 10 ^ 8" by (simp add: norm3_def real_sqrt_divide)
  have p: "(0 :: real) < 1 / 10 ^ 8" by simp
  have l: "(1 / 10 ^ 8 :: real) < 1 / 10 ^ 7" by simp
  have b: "norm3 (0, 0, 0) = 0" by (simp add: norm3_def)
  show ?thesis using manifold_jacobian_small_angle [OF a p l b] a p l b by blast
qed

text \<open>
  C4. Whenever the call reaches the projection (the reads of the parameter blocks stay in
  bounds and the model pointer is not null): if \<open>Project\<close> succeeds with a projection, the
  call returns true and the residual is the measurement minus the projection; if
  \<open>Project\<close> reports an error, the call returns false and the residual is what it was
  before the call.
\<close>

theorem GyroscopeCostFunctor_call_residual:
  assumes "parse_parameters bspline f parameters = Inr args"
    and "gyroscope_model f = Some model"
  shows "(\<forall>projection.
            Project model (arg_intrinsics args) (omega_sensor_world bspline f args) =
              Inr projection \<longrightarrow>
            GyroscopeCostFunctor_call bspline f parameters residual =
              Inr (True, vec_sub (measurement f) projection)) \<and>
         (\<forall>status.
            Project model (arg_intrinsics args) (omega_sensor_world bspline f args) =
              Inl status \<longrightarrow>
            GyroscopeCostFunctor_call bspline f parameters residual =
              Inr (False, residual))"
  using assms by (simp add: GyroscopeCostFunctor_call_def)

theorem GyroscopeCostFunctor_call_residual_witness:
  "GyroscopeCostFunctor_call two_point_spline example_functor (parameters_at_7 2) (9, 9, 9) =
     Inr (True, (3, 2, 3)) \<and>
   GyroscopeCostFunctor_call two_point_spline example_functor (parameters_at_7 0) (9, 9, 9) =
     Inr (False, (9, 9, 9))"
proof -
  note m = example_functor_fields(1)
  have "GyroscopeCostFunctor_call two_point_spline example_functor (parameters_at_7 2)
          (9, 9, 9) = Inr (True, vec_sub (measurement example_functor) (- 2, 0, 0))"
    using GyroscopeCostFunctor_call_residual [OF parse_parameters_at_7 m, of 2 "(9, 9, 9)"]
    by (simp add: example_omega scale_model_Project example_arguments_intrinsics)
  moreover have "GyroscopeCostFunctor_call two_point_spline example_functor
          (parameters_at_7 0) (9, 9, 9) = Inr (False, (9, 9, 9))"
    using GyroscopeCostFunctor_call_residual [OF parse_parameters_at_7 m, of 0 "(9, 9, 9)"]
    by (simp add: example_omega scale_model_Project example_arguments_intrinsics)
  ultimately show ?thesis by (simp add: example_functor_fields)
qed

text \<open>
  C5, as the code has it. The angular velocity that \<open>operator()\<close> hands to the model is
  \<open>q\<^sup>-\<^sup>1 \<cdot> (J \<cdot> phi_dot)\<close>: the Jacobian \<open>J\<close> is applied first, and the result is rotated by
  the inverse of the extrinsics quaternion. Here \<open>phi_dot\<close> is the negated rotational
  component of the spline pose derivative, \<open>-pose_dot_vector.head(3)\<close>, and \<open>J\<close> is the
  Jacobian at the negated rotational component of the pose, \<open>-pose_vector.head(3)\<close>.
\<close>

theorem omega_sensor_world_formula:
  "omega_sensor_world bspline f args =
     quat_transformVector (quat_inverse (arg_q_sensorrig_gyroscope args))
       (mat_vec
          (fst (manifold_jacobian (vec_neg (head3 (evaluate_spline bspline f args 0)))))
          (vec_neg (head3 (evaluate_spline bspline f args 1))))"
  by (simp add: omega_sensor_world_def Let_def mat_vec_mat_mul toRotationMatrix_transform)

text \<open>
  C5, as it is stated, with the rotational component of the pose derivative itself in the
  place of \<open>phi_dot\<close>, fails: in the example the pose derivative has the rotational
  component \<open>(1, 0, 0)\<close>, the quaternion is the identity and \<open>J\<close> is the identity, and the
  code computes \<open>(-1, 0, 0)\<close>.
\<close>

theorem omega_sensor_world_sign_counterexample:
  "omega_sensor_world two_point_spline example_functor (example_arguments 2) = (- 1, 0, 0) \<and>
   quat_transformVector (quat_inverse (arg_q_sensorrig_gyroscope (example_arguments 2)))
     (mat_vec
        (fst (manifold_jacobian
           (vec_neg (head3 (evaluate_spline two_point_spline example_functor
              (example_arguments 2) 0)))))
        (head3 (evaluate_spline two_point_spline example_functor (example_arguments 2) 1))) =
     (1, 0, 0)"
  by (simp add: example_arguments_def omega_sensor_world_def evaluate_spline_def
      example_functor_def two_point_spline_def manifold_jacobian_def identity3_def
      quat_inverse_def)

text \<open>
  C1. The control points are read from the block at index 7, not from the block that
  follows the latency block (index 4): on the five blocks that the documentation of
  \<open>operator()\<close> lists, in its order, the read is past the end of the parameter array.
\<close>

theorem control_points_index_out_of_bounds:
  "index_of kSensorRigPoseSplineControlPointsIndex = 7 \<and>
   index_of kLatencyIndex + 1 = 4 \<and>
   length parameters_five_blocks = 5 \<and>
   GyroscopeCostFunctor_call two_point_spline example_functor parameters_five_blocks
     (9, 9, 9) = Inl OutOfBounds"
  by (simp add: GyroscopeCostFunctor_call_def parse_parameters_five_blocks)
     (simp add: parameters_five_blocks_def)

end
